theory Spec2Isabelle
  imports Main
begin

section \<open>SslStreamSocket: a TLS engine behind a non-blocking stream socket\<close>

text \<open>
  A shallow embedding of \<^verbatim>\<open>class SslStreamSocket\<close> (net/SslSocket.hpp). The class
  keeps two private members of its own, \<^verbatim>\<open>_sslWantsTo\<close> and \<^verbatim>\<open>_doHandshake\<close>,
  and a handle \<^verbatim>\<open>_ssl\<close> to the TLS engine. The engine, \<^verbatim>\<open>errno\<close> and the
  engine's error queue are the environment of the class: they are modelled as a script
  of replies that the engine calls consume in order, so that every path of the code can
  be driven by choosing the script.

  Not modelled: the bytes moved through \<^verbatim>\<open>buf\<close>, the logging macros, and
  \<^verbatim>\<open>assert(isCorrectThread())\<close>, which is about the calling thread (the model is
  that of the one owning thread, where it holds).
\<close>

subsection \<open>Data\<close>

text \<open>\<^verbatim>\<open>enum class SslWantsTo { Neither, Read, Write }\<close>\<close>

datatype SslWantsTo = Neither | Read | Write

text \<open>
  The values of \<^verbatim>\<open>SSL_get_error\<close> that the switch of \<^verbatim>\<open>handleSslState\<close> names,
  the two further ones of the engine's header that it leaves to \<^verbatim>\<open>default\<close>, and any
  other code.
\<close>

datatype ssl_error =
    SSL_ERROR_NONE
  | SSL_ERROR_SSL
  | SSL_ERROR_WANT_READ
  | SSL_ERROR_WANT_WRITE
  | SSL_ERROR_WANT_X509_LOOKUP
  | SSL_ERROR_SYSCALL
  | SSL_ERROR_ZERO_RETURN
  | SSL_ERROR_WANT_CONNECT
  | SSL_ERROR_WANT_ACCEPT
  | SSL_ERROR_OTHER int

text \<open>The engine operations the class calls, with the length argument where there is one.\<close>

datatype ssl_call =
    Call_do_handshake
  | Call_read int
  | Call_write int
  | Call_shutdown

text \<open>
  What one engine operation leaves behind: its return code, the classification
  \<^verbatim>\<open>SSL_get_error\<close> gives for it, the value of \<^verbatim>\<open>errno\<close> after it, and the
  diagnostic codes it pushed on the error queue.
\<close>

record reply =
  ret :: int
  err :: ssl_error
  sys_errno :: int
  queued :: "nat list"

text \<open>
  The socket: the two members of the class, then the environment. \<open>trace\<close> logs every
  engine operation with its return code, oldest first.
\<close>

record sock =
  m_sslWantsTo :: SslWantsTo
  m_doHandshake :: bool
  script :: "reply list"
  trace :: "(ssl_call \<times> int) list"
  errno :: int
  last_error :: ssl_error
  err_queue :: "nat list"
  ERR_error_string :: "nat \<Rightarrow> string"

text \<open>
  \<^verbatim>\<open>std::runtime_error\<close> with its message, and a failed \<^verbatim>\<open>assert\<close> with the
  asserted expression.
\<close>

datatype exn = Runtime_error string | Assertion_failed string

text \<open>
  An operation ends by returning a value or by throwing; either way it leaves a socket
  state. Operations that call the engine give \<open>None\<close> when the script has no reply left.
\<close>

type_synonym 'a outcome = "(exn + 'a) \<times> sock"

text \<open>Constants of the platform headers (Linux values).\<close>

definition EINTR :: int where
  "EINTR = 4"

definition POLLIN :: int where
  "POLLIN = 1"

definition POLLOUT :: int where
  "POLLOUT = 4"

subsection \<open>The environment\<close>

definition engine_call :: "ssl_call \<Rightarrow> sock \<Rightarrow> (int \<times> sock) option" where
  "engine_call c s =
     (case script s of
        [] \<Rightarrow> None
      | r # rs \<Rightarrow>
          Some (ret r,
                s\<lparr>script := rs,
                  trace := trace s @ [(c, ret r)],
                  errno := sys_errno r,
                  last_error := err r,
                  err_queue := err_queue s @ queued r\<rparr>))"

text \<open>\<^verbatim>\<open>SSL_get_error(_ssl, rc)\<close>: no error for a positive code.\<close>

definition SSL_get_error :: "sock \<Rightarrow> int \<Rightarrow> ssl_error" where
  "SSL_get_error s rc = (if rc > 0 then SSL_ERROR_NONE else last_error s)"

text \<open>\<^verbatim>\<open>ERR_get_error()\<close>: takes the earliest code off the queue, 0 when it is empty.\<close>

definition ERR_get_error :: "sock \<Rightarrow> nat \<times> sock" where
  "ERR_get_error s =
     (case err_queue s of
        [] \<Rightarrow> (0, s)
      | e # es \<Rightarrow> (e, s\<lparr>err_queue := es\<rparr>))"

text \<open>\<^verbatim>\<open>std::to_string(int)\<close>: decimal digits, with a minus sign below zero.\<close>

definition digit_char :: "nat \<Rightarrow> char" where
  "digit_char d = ''0123456789'' ! (d mod 10)"

function decimal :: "nat \<Rightarrow> string" where
  "decimal n = (if n < 10 then [digit_char n] else decimal (n div 10) @ [digit_char (n mod 10)])"
  by pat_completeness auto
termination
  by (relation "measure (\<lambda>n. n)") auto

declare decimal.simps [simp del]

definition to_string :: "int \<Rightarrow> string" where
  "to_string i = (if i < 0 then CHR ''-'' # decimal (nat (- i)) else decimal (nat i))"

subsection \<open>The status classifier\<close>

text \<open>
  The \<^verbatim>\<open>default:\<close> branch of \<^verbatim>\<open>handleSslState\<close>, which \<^verbatim>\<open>SSL_ERROR_SYSCALL\<close>
  falls through to when \<^verbatim>\<open>errno\<close> is 0. \<^verbatim>\<open>ERR_error_string_n\<close> writes at most 511
  characters into the buffer of 512.
\<close>

definition handleSslState_default :: "int \<Rightarrow> sock \<Rightarrow> int outcome" where
  "handleSslState_default rc s =
     (case ERR_get_error s of (bioError, s') \<Rightarrow>
        if bioError = 0 then
          (if rc = 0 then (Inr 0, s')
           else if rc = - 1 then
             (Inl (Runtime_error ''SSL Socket closed unexpectedly.''), s')
           else
             (Inl (Runtime_error (''SSL BIO reported error ['' @ to_string rc @ ''].'')), s'))
        else
          (Inl (Runtime_error (take 511 (ERR_error_string s' bioError))), s'))"

definition handleSslState :: "int \<Rightarrow> sock \<Rightarrow> int outcome" where
  "handleSslState rc s =
     (if rc > 0 then (Inr rc, s\<lparr>m_sslWantsTo := Neither\<rparr>)
      else
        (case SSL_get_error s rc of
           SSL_ERROR_ZERO_RETURN \<Rightarrow> (Inr 0, s)
         | SSL_ERROR_WANT_READ \<Rightarrow> (Inr rc, s\<lparr>m_sslWantsTo := Read\<rparr>)
         | SSL_ERROR_WANT_WRITE \<Rightarrow> (Inr rc, s\<lparr>m_sslWantsTo := Write\<rparr>)
         | SSL_ERROR_WANT_CONNECT \<Rightarrow> (Inr rc, s)
         | SSL_ERROR_WANT_ACCEPT \<Rightarrow> (Inr rc, s)
         | SSL_ERROR_WANT_X509_LOOKUP \<Rightarrow> (Inr rc, s)
         | SSL_ERROR_SYSCALL \<Rightarrow>
             if errno s \<noteq> 0 then (Inr rc, s) else handleSslState_default rc s
         | _ \<Rightarrow> handleSslState_default rc s))"

subsection \<open>The handshake driver\<close>

text \<open>
  \<^verbatim>\<open>do { rc = SSL_do_handshake(_ssl); } while (rc < 0 && errno == EINTR);\<close>
  Every round consumes one reply of the script.
\<close>

function SSL_do_handshake_loop :: "sock \<Rightarrow> (int \<times> sock) option" where
  "SSL_do_handshake_loop s =
     (case engine_call Call_do_handshake s of
        None \<Rightarrow> None
      | Some (rc, s') \<Rightarrow>
          if rc < 0 \<and> errno s' = EINTR then SSL_do_handshake_loop s' else Some (rc, s'))"
  by pat_completeness auto
termination
  by (relation "measure (\<lambda>s. length (script s))")
     (auto simp: engine_call_def split: list.splits)

declare SSL_do_handshake_loop.simps [simp del]

text \<open>
  \<^verbatim>\<open>return (rc != 0);\<close> in a function returning \<^verbatim>\<open>int\<close> gives 1 for a non-zero
  \<^verbatim>\<open>rc\<close> and 0 for zero.
\<close>

definition doHandshake :: "sock \<Rightarrow> int outcome option" where
  "doHandshake s =
     (if m_doHandshake s then
        (case SSL_do_handshake_loop s of
           None \<Rightarrow> None
         | Some (rc, s1) \<Rightarrow>
             if rc \<le> 0 then
               (case handleSslState rc s1 of
                  (Inl e, s2) \<Rightarrow> Some (Inl e, s2)
                | (Inr rc', s2) \<Rightarrow>
                    if rc' \<le> 0 then Some (Inr (if rc' \<noteq> 0 then 1 else 0), s2)
                    else Some (Inr 1, s2\<lparr>m_doHandshake := False\<rparr>))
             else Some (Inr 1, s1\<lparr>m_doHandshake := False\<rparr>))
      else Some (Inr 1, s))"

subsection \<open>The public operations\<close>

text \<open>
  The constructor: the BIO or the engine handle may fail to be allocated; otherwise
  the socket starts with nothing wanted and the handshake still to do.
\<close>

definition SslStreamSocket :: "bool \<Rightarrow> bool \<Rightarrow> reply list \<Rightarrow> (nat \<Rightarrow> string) \<Rightarrow> exn + sock" where
  "SslStreamSocket bio_ok ssl_ok replies estr =
     (if \<not> bio_ok then Inl (Runtime_error ''Failed to create SSL BIO.'')
      else if \<not> ssl_ok then Inl (Runtime_error ''Failed to create SSL.'')
      else Inr \<lparr>m_sslWantsTo = Neither, m_doHandshake = True, script = replies,
                trace = [], errno = 0, last_error = SSL_ERROR_NONE, err_queue = [],
                ERR_error_string = estr\<rparr>)"

definition shutdown :: "sock \<Rightarrow> sock option" where
  "shutdown s =
     (case engine_call Call_shutdown s of
        None \<Rightarrow> None
      | Some (rc, s1) \<Rightarrow>
          if rc = 0 then
            (case engine_call Call_shutdown s1 of
               None \<Rightarrow> None
             | Some (rc2, s2) \<Rightarrow> Some s2)
          else Some s1)"

text \<open>
  \<^verbatim>\<open>readIncomingData\<close> and \<^verbatim>\<open>writeOutgoingData\<close> end in the default implementation
  of the base class \<^verbatim>\<open>StreamSocket\<close> (Socket.hpp), which is a parameter here.
\<close>

definition readIncomingData :: "(sock \<Rightarrow> bool outcome option) \<Rightarrow> sock \<Rightarrow> bool outcome option" where
  "readIncomingData StreamSocket_readIncomingData s =
     (case doHandshake s of
        None \<Rightarrow> None
      | Some (Inl e, s') \<Rightarrow> Some (Inl e, s')
      | Some (Inr rc, s') \<Rightarrow>
          if rc \<le> 0 then Some (Inr (rc \<noteq> 0), s')
          else StreamSocket_readIncomingData s')"

definition writeOutgoingData :: "(sock \<Rightarrow> unit outcome option) \<Rightarrow> sock \<Rightarrow> unit outcome option" where
  "writeOutgoingData StreamSocket_writeOutgoingData s =
     (case doHandshake s of
        None \<Rightarrow> None
      | Some (Inl e, s') \<Rightarrow> Some (Inl e, s')
      | Some (Inr rc, s') \<Rightarrow>
          if rc \<le> 0 then Some (Inr (), s')
          else StreamSocket_writeOutgoingData s')"

definition readData :: "int \<Rightarrow> sock \<Rightarrow> int outcome option" where
  "readData len s =
     (case engine_call (Call_read len) s of
        None \<Rightarrow> None
      | Some (rc, s') \<Rightarrow> Some (handleSslState rc s'))"

definition writeData :: "int \<Rightarrow> sock \<Rightarrow> int outcome option" where
  "writeData len s =
     (if \<not> len > 0 then Some (Inl (Assertion_failed ''len > 0''), s)
      else
        (case engine_call (Call_write len) s of
           None \<Rightarrow> None
         | Some (rc, s') \<Rightarrow> Some (handleSslState rc s')))"

definition getPollEvents :: "(sock \<Rightarrow> int) \<Rightarrow> sock \<Rightarrow> int" where
  "getPollEvents StreamSocket_getPollEvents s =
     (if m_sslWantsTo s = Read then POLLIN
      else if m_sslWantsTo s = Write then POLLOUT
      else StreamSocket_getPollEvents s)"

subsection \<open>Sequencing and example sessions\<close>

text \<open>
  Running an operation on the state the previous one left, and looking at what an
  operation returned and at the state it left.
\<close>

definition then_do :: "'a outcome option \<Rightarrow> (sock \<Rightarrow> 'b outcome option) \<Rightarrow> 'b outcome option" where
  "then_do x f = (case x of None \<Rightarrow> None | Some (r, s) \<Rightarrow> f s)"

definition final :: "'a outcome option \<Rightarrow> sock option" where
  "final x = map_option snd x"

definition result :: "'a outcome option \<Rightarrow> (exn + 'a) option" where
  "result x = map_option fst x"

text \<open>
  The socket as the constructor leaves it, with a script for the engine and a rendering
  of diagnostic codes.
\<close>

definition diagnostic_text :: "nat \<Rightarrow> string" where
  "diagnostic_text e = ''error:'' @ decimal e"

definition accepted :: "reply list \<Rightarrow> sock" where
  "accepted replies =
     \<lparr>m_sslWantsTo = Neither, m_doHandshake = True, script = replies,
      trace = [], errno = 0, last_error = SSL_ERROR_NONE, err_queue = [],
      ERR_error_string = diagnostic_text\<rparr>"

text \<open>
  Replies of the engine: an operation that could not proceed (return code -1, with
  \<^verbatim>\<open>errno\<close> at \<^verbatim>\<open>EAGAIN\<close>), one that succeeded, and one that failed on a
  connection reset (\<^verbatim>\<open>ECONNRESET\<close>).
\<close>

definition suspended :: "ssl_error \<Rightarrow> reply" where
  "suspended e = \<lparr>ret = - 1, err = e, sys_errno = 11, queued = []\<rparr>"

definition succeeded :: "int \<Rightarrow> reply" where
  "succeeded n = \<lparr>ret = n, err = SSL_ERROR_NONE, sys_errno = 0, queued = []\<rparr>"

definition connection_reset :: reply where
  "connection_reset = \<lparr>ret = - 1, err = SSL_ERROR_SYSCALL, sys_errno = 104, queued = []\<rparr>"

text \<open>A base transport that has outbound bytes buffered asks for both directions.\<close>

definition buffered_output :: "sock \<Rightarrow> int" where
  "buffered_output s = POLLIN + POLLOUT"

text \<open>
  Sockets right after an engine operation that failed: on a connection reset, with
  nothing recorded anywhere (\<^verbatim>\<open>errno\<close> 0, empty queue), and with two diagnostic codes
  queued.
\<close>

definition reset_by_peer :: sock where
  "reset_by_peer = (accepted [])\<lparr>last_error := SSL_ERROR_SYSCALL, errno := 104\<rparr>"

definition no_diagnostic :: sock where
  "no_diagnostic = (accepted [])\<lparr>last_error := SSL_ERROR_SYSCALL\<rparr>"

definition with_diagnostic :: sock where
  "with_diagnostic = (accepted [])\<lparr>last_error := SSL_ERROR_SSL, err_queue := [20, 7]\<rparr>"

text \<open>
  Fresh sockets with a script: a handshake that suspends and then succeeds; a read that
  suspends followed by one that hits a connection reset; a handshake that suspends twice.
\<close>

definition stale_session :: sock where
  "stale_session = accepted [suspended SSL_ERROR_WANT_READ, succeeded 1]"

definition stale_read :: sock where
  "stale_read = accepted [suspended SSL_ERROR_WANT_READ, connection_reset]"

definition handshake_pending :: sock where
  "handshake_pending = accepted [suspended SSL_ERROR_WANT_READ, suspended SSL_ERROR_WANT_READ]"

text \<open>
  Sockets whose handshake is done: one whose peer never completes the close (every
  \<^verbatim>\<open>SSL_shutdown\<close> returns 0), and one with a mixed script.
\<close>

definition unresponsive_peer :: sock where
  "unresponsive_peer =
     (accepted [succeeded 0, succeeded 0, succeeded 0, succeeded 0, succeeded 0])
       \<lparr>m_doHandshake := False\<rparr>"

definition established :: sock where
  "established =
     (accepted [suspended SSL_ERROR_WANT_READ, succeeded 7, connection_reset, succeeded 0,
                succeeded 1])
       \<lparr>m_doHandshake := False\<rparr>"

text \<open>A second \<^verbatim>\<open>shutdown()\<close> directly after a first.\<close>

definition then_shutdown :: "sock option \<Rightarrow> sock option" where
  "then_shutdown x = (case x of None \<Rightarrow> None | Some s \<Rightarrow> shutdown s)"

subsection \<open>The default read path, and sessions as sequences of operations\<close>

text \<open>
  Modelled from the spec: the default read path of the base transport
  (\<^verbatim>\<open>StreamSocket::readIncomingData\<close> of Socket.hpp, which is not part of
  net/SslSocket.hpp). The spec says of it only that it "requests up to maxLen plaintext
  bytes via the engine" and that a count of 0 is the end of the stream: one call of the
  virtual \<^verbatim>\<open>readData\<close>, and false exactly when it returned 0.
\<close>

definition StreamSocket_read_once :: "int \<Rightarrow> sock \<Rightarrow> bool outcome option" where
  "StreamSocket_read_once len s =
     (case readData len s of
        None \<Rightarrow> None
      | Some (Inl e, s') \<Rightarrow> Some (Inl e, s')
      | Some (Inr n, s') \<Rightarrow> Some (Inr (n \<noteq> 0), s'))"

text \<open>
  The operations of the class that touch its state, and a session as any sequence of
  them (whatever the callers, the base class among them, invoke). A step that throws
  leaves its state to the next one: the handshake flag is followed through exceptions too.
\<close>

datatype op =
    Op_doHandshake
  | Op_readData int
  | Op_writeData int
  | Op_shutdown
  | Op_handleSslState int

fun step :: "op \<Rightarrow> sock \<Rightarrow> sock option" where
  "step Op_doHandshake s = final (doHandshake s)"
| "step (Op_readData len) s = final (readData len s)"
| "step (Op_writeData len) s = final (writeData len s)"
| "step Op_shutdown s = shutdown s"
| "step (Op_handleSslState rc) s = Some (snd (handleSslState rc s))"

fun run :: "op list \<Rightarrow> sock \<Rightarrow> sock option" where
  "run [] s = Some s"
| "run (x # xs) s = (case step x s of None \<Rightarrow> None | Some s' \<Rightarrow> run xs s')"

section \<open>Properties\<close>

subsection \<open>Facts about the classifier and the engine calls\<close>

lemma SslStreamSocket_accepted:
  "SslStreamSocket True True replies diagnostic_text = Inr (accepted replies)"
  by (simp add: SslStreamSocket_def accepted_def)

lemma handleSslState_pos:
  "rc > 0 \<Longrightarrow> handleSslState rc s = (Inr rc, s\<lparr>m_sslWantsTo := Neither\<rparr>)"
  by (simp add: handleSslState_def)

lemma handleSslState_default_frame:
  "handleSslState_default rc s = (r, s') \<Longrightarrow>
     m_sslWantsTo s' = m_sslWantsTo s \<and> m_doHandshake s' = m_doHandshake s \<and> trace s' = trace s
     \<and> script s' = script s \<and> errno s' = errno s \<and> last_error s' = last_error s"
  by (auto simp: handleSslState_default_def ERR_get_error_def split: list.splits if_splits)

lemma handleSslState_frame:
  "handleSslState rc s = (r, s') \<Longrightarrow>
     m_doHandshake s' = m_doHandshake s \<and> trace s' = trace s \<and> script s' = script s
     \<and> errno s' = errno s \<and> last_error s' = last_error s"
  by (auto simp: handleSslState_def split: if_splits ssl_error.splits
           dest: handleSslState_default_frame)

lemma handleSslState_nonpos:
  "rc \<le> 0 \<Longrightarrow> handleSslState rc s = (Inr rc', s') \<Longrightarrow> rc' \<le> 0"
  by (auto simp: handleSslState_def handleSslState_default_def ERR_get_error_def
           split: if_splits ssl_error.splits list.splits)

lemma engine_call_frame:
  "engine_call c s = Some (rc, s') \<Longrightarrow>
     m_doHandshake s' = m_doHandshake s \<and> m_sslWantsTo s' = m_sslWantsTo s
     \<and> trace s' = trace s @ [(c, rc)]"
  by (auto simp: engine_call_def split: list.splits)

lemma engine_call_Cons:
  "script s = r # rs \<Longrightarrow>
     engine_call c s = Some (ret r, s\<lparr>script := rs, trace := trace s @ [(c, ret r)],
        errno := sys_errno r, last_error := err r, err_queue := err_queue s @ queued r\<rparr>)"
  by (simp add: engine_call_def)

lemma SSL_do_handshake_loop_Nil:
  "script s = [] \<Longrightarrow> SSL_do_handshake_loop s = None"
  by (simp add: SSL_do_handshake_loop.simps [of s] engine_call_def)

lemma SSL_do_handshake_loop_Cons:
  "script s = r # rs \<Longrightarrow>
     SSL_do_handshake_loop s =
       (if ret r < 0 \<and> sys_errno r = EINTR
        then SSL_do_handshake_loop
               (s\<lparr>script := rs, trace := trace s @ [(Call_do_handshake, ret r)],
                  errno := sys_errno r, last_error := err r,
                  err_queue := err_queue s @ queued r\<rparr>)
        else Some (ret r,
               s\<lparr>script := rs, trace := trace s @ [(Call_do_handshake, ret r)],
                 errno := sys_errno r, last_error := err r,
                 err_queue := err_queue s @ queued r\<rparr>))"
  by (simp add: SSL_do_handshake_loop.simps [of s] engine_call_def)

text \<open>
  The loop returns as soon as the script holds a reply that is not an interrupted call,
  and what it returns is the last engine call of the trace.
\<close>

lemma SSL_do_handshake_loop_returns:
  "\<exists>r \<in> set (script s). \<not> (ret r < 0 \<and> sys_errno r = EINTR) \<Longrightarrow>
     \<exists>rc s'. SSL_do_handshake_loop s = Some (rc, s')"
proof (induction "script s" arbitrary: s)
  case Nil
  then show ?case by simp
next
  case (Cons r rs)
  from Cons.hyps(2) have scr: "script s = r # rs"
    by simp
  show ?case
  proof (cases "ret r < 0 \<and> sys_errno r = EINTR")
    case False
    then show ?thesis
      by (auto simp: SSL_do_handshake_loop_Cons [OF scr])
  next
    case True
    let ?s1 = "s\<lparr>script := rs, trace := trace s @ [(Call_do_handshake, ret r)],
                 errno := sys_errno r, last_error := err r,
                 err_queue := err_queue s @ queued r\<rparr>"
    from True Cons.prems scr have "\<exists>r \<in> set (script ?s1). \<not> (ret r < 0 \<and> sys_errno r = EINTR)"
      by auto
    moreover have "rs = script ?s1"
      by simp
    ultimately have "\<exists>rc s'. SSL_do_handshake_loop ?s1 = Some (rc, s')"
      by (rule Cons.hyps(1) [rotated])
    with True show ?thesis
      by (simp add: SSL_do_handshake_loop_Cons [OF scr])
  qed
qed

lemma SSL_do_handshake_loop_result:
  "SSL_do_handshake_loop s = Some (rc, s') \<Longrightarrow>
     m_doHandshake s' = m_doHandshake s \<and> m_sslWantsTo s' = m_sslWantsTo s
     \<and> trace s' \<noteq> [] \<and> last (trace s') = (Call_do_handshake, rc)"
proof (induction s rule: SSL_do_handshake_loop.induct)
  case (1 s)
  from "1.prems" obtain rc1 s1 where call: "engine_call Call_do_handshake s = Some (rc1, s1)"
    by (auto simp: SSL_do_handshake_loop.simps [of s] split: option.splits)
  note fr = engine_call_frame [OF call]
  show ?case
  proof (cases "rc1 < 0 \<and> errno s1 = EINTR")
    case True
    with "1.prems" call have "SSL_do_handshake_loop s1 = Some (rc, s')"
      by (simp add: SSL_do_handshake_loop.simps [of s])
    with "1.IH" [OF call refl True] fr show ?thesis
      by simp
  next
    case False
    with "1.prems" call have "rc = rc1" "s' = s1"
      by (auto simp: SSL_do_handshake_loop.simps [of s])
    with fr show ?thesis
      by simp
  qed
qed

lemma doHandshake_done:
  "\<not> m_doHandshake s \<Longrightarrow> doHandshake s = Some (Inr 1, s)"
  by (simp add: doHandshake_def)

text \<open>
  A step that is suspended with a negative code leaves the flag set, records the
  direction, and makes \<^verbatim>\<open>doHandshake\<close> return 1.
\<close>

lemma doHandshake_suspended:
  assumes "m_doHandshake s" and "script s = r # rs" and "ret r < 0" and "sys_errno r \<noteq> EINTR"
    and "err r = SSL_ERROR_WANT_READ \<or> err r = SSL_ERROR_WANT_WRITE"
  shows "doHandshake s =
           Some (Inr 1,
             s\<lparr>script := rs, trace := trace s @ [(Call_do_handshake, ret r)],
               errno := sys_errno r, last_error := err r,
               err_queue := err_queue s @ queued r,
               m_sslWantsTo := (if err r = SSL_ERROR_WANT_READ then Read else Write)\<rparr>)"
  using assms
  by (auto simp: doHandshake_def SSL_do_handshake_loop_Cons handleSslState_def SSL_get_error_def)

lemma doHandshake_sets_done:
  assumes "doHandshake s = Some (r, s')" and "m_doHandshake s" and "\<not> m_doHandshake s'"
  shows "r = Inr 1 \<and> (\<exists>rc. 0 < rc \<and> trace s' \<noteq> [] \<and> last (trace s') = (Call_do_handshake, rc))"
proof -
  from assms obtain rc s1 where loop: "SSL_do_handshake_loop s = Some (rc, s1)"
    by (auto simp: doHandshake_def split: option.splits)
  note lr = SSL_do_handshake_loop_result [OF loop]
  show ?thesis
  proof (cases "rc \<le> 0")
    case True
    obtain r2 s2 where h: "handleSslState rc s1 = (r2, s2)"
      by (cases "handleSslState rc s1")
    note hf = handleSslState_frame [OF h]
    from True h handleSslState_nonpos [of rc s1] have "\<And>rc'. r2 = Inr rc' \<Longrightarrow> rc' \<le> 0"
      by simp
    with assms loop True h hf lr have "m_doHandshake s'"
      by (cases r2) (auto simp: doHandshake_def split: if_splits)
    with assms show ?thesis by simp
  next
    case False
    with assms loop lr show ?thesis
      by (auto simp: doHandshake_def)
  qed
qed

lemma readData_frame:
  "readData len s = Some x \<Longrightarrow> m_doHandshake (snd x) = m_doHandshake s"
  using handleSslState_frame engine_call_frame
  by (auto simp: readData_def split: option.splits) (metis prod.collapse)+

lemma writeData_frame:
  "writeData len s = Some x \<Longrightarrow> m_doHandshake (snd x) = m_doHandshake s"
  using handleSslState_frame engine_call_frame
  by (auto simp: writeData_def split: option.splits if_splits) (metis prod.collapse)+

lemma shutdown_frame:
  "shutdown s = Some s' \<Longrightarrow> m_doHandshake s' = m_doHandshake s"
  by (auto simp: shutdown_def engine_call_def split: list.splits if_splits)

lemma handleSslState_flag:
  "m_doHandshake (snd (handleSslState rc s)) = m_doHandshake s"
  using handleSslState_frame [of rc s] by (cases "handleSslState rc s") simp

lemma step_frame:
  "x \<noteq> Op_doHandshake \<Longrightarrow> step x s = Some s' \<Longrightarrow> m_doHandshake s' = m_doHandshake s"
  by (cases x)
     (auto simp: final_def handleSslState_flag
           dest: readData_frame writeData_frame shutdown_frame)

lemma step_done:
  "\<not> m_doHandshake s \<Longrightarrow> step x s = Some s' \<Longrightarrow> \<not> m_doHandshake s'"
  by (cases x)
     (auto simp: final_def doHandshake_done handleSslState_flag
           dest: readData_frame writeData_frame shutdown_frame)

lemma run_done:
  "\<not> m_doHandshake s \<Longrightarrow> run xs s = Some s' \<Longrightarrow> \<not> m_doHandshake s'"
proof (induction xs arbitrary: s)
  case Nil
  then show ?case by simp
next
  case (Cons x xs)
  then show ?case
    by (auto split: option.splits dest: step_done)
qed

subsection \<open>Readiness interest\<close>

text \<open>
  C3. \<^verbatim>\<open>getPollEvents\<close> returns exactly \<^verbatim>\<open>POLLIN\<close> when the want-state is Read and
  exactly \<^verbatim>\<open>POLLOUT\<close> when it is Write, whatever the base transport's own computation
  would give; when the want-state is Neither it returns what the base transport computes.
  The two directions are different values.
\<close>

theorem C3_getPollEvents_override:
  "(m_sslWantsTo s = Read \<longrightarrow> getPollEvents base s = POLLIN) \<and>
   (m_sslWantsTo s = Write \<longrightarrow> getPollEvents base s = POLLOUT) \<and>
   (m_sslWantsTo s = Neither \<longrightarrow> getPollEvents base s = base s) \<and>
   POLLIN \<noteq> POLLOUT"
  by (simp add: getPollEvents_def POLLIN_def POLLOUT_def)

theorem C3_getPollEvents_override_witness:
  "getPollEvents buffered_output ((accepted [])\<lparr>m_sslWantsTo := Read\<rparr>) = POLLIN \<and>
   getPollEvents buffered_output ((accepted [])\<lparr>m_sslWantsTo := Write\<rparr>) = POLLOUT \<and>
   getPollEvents buffered_output (accepted []) = POLLIN + POLLOUT"
  using C3_getPollEvents_override [of "(accepted [])\<lparr>m_sslWantsTo := Read\<rparr>" buffered_output]
        C3_getPollEvents_override [of "(accepted [])\<lparr>m_sslWantsTo := Write\<rparr>" buffered_output]
        C3_getPollEvents_override [of "accepted []" buffered_output]
  by (simp add: accepted_def buffered_output_def)

subsection \<open>Outcomes the classifier passes through\<close>

text \<open>
  C6. A non-positive engine result that \<^verbatim>\<open>SSL_get_error\<close> classifies as
  \<^verbatim>\<open>SSL_ERROR_SYSCALL\<close> while \<^verbatim>\<open>errno\<close> is non-zero is returned unchanged: the
  classifier does not throw, and it leaves the whole state, \<^verbatim>\<open>errno\<close> included, as
  it found it.
\<close>

theorem C6_syscall_errno_passthrough:
  "rc \<le> 0 \<Longrightarrow> SSL_get_error s rc = SSL_ERROR_SYSCALL \<Longrightarrow> errno s \<noteq> 0 \<Longrightarrow>
     handleSslState rc s = (Inr rc, s)"
  by (simp add: handleSslState_def)

theorem C6_syscall_errno_passthrough_witness:
  "handleSslState (- 1) reset_by_peer = (Inr (- 1), reset_by_peer) \<and> errno reset_by_peer = 104"
  using C6_syscall_errno_passthrough [of "- 1" reset_by_peer]
  by (simp add: reset_by_peer_def accepted_def SSL_get_error_def)

text \<open>
  C10. On the outcomes the classifier passes through without a direction (a syscall
  error with \<^verbatim>\<open>errno\<close> set, and the want-connect, want-accept and want-X509-lookup
  signals) the original code is returned and the want-state stays what it was, so a
  Read or Write recorded earlier still overrides \<^verbatim>\<open>getPollEvents\<close> afterwards.
\<close>

theorem C10_passthrough_keeps_want_state:
  assumes "rc \<le> 0"
    and "(SSL_get_error s rc = SSL_ERROR_SYSCALL \<and> errno s \<noteq> 0)
         \<or> SSL_get_error s rc = SSL_ERROR_WANT_CONNECT
         \<or> SSL_get_error s rc = SSL_ERROR_WANT_ACCEPT
         \<or> SSL_get_error s rc = SSL_ERROR_WANT_X509_LOOKUP"
  shows "fst (handleSslState rc s) = Inr rc
     \<and> m_sslWantsTo (snd (handleSslState rc s)) = m_sslWantsTo s
     \<and> getPollEvents base (snd (handleSslState rc s)) = getPollEvents base s
     \<and> (m_sslWantsTo s = Read \<longrightarrow> getPollEvents base (snd (handleSslState rc s)) = POLLIN)
     \<and> (m_sslWantsTo s = Write \<longrightarrow> getPollEvents base (snd (handleSslState rc s)) = POLLOUT)"
proof -
  have "handleSslState rc s = (Inr rc, s)"
    using assms by (auto simp: handleSslState_def)
  then show ?thesis
    by (simp add: getPollEvents_def)
qed

theorem C10_passthrough_keeps_want_state_witness:
  "m_sslWantsTo (snd (handleSslState (- 1) (reset_by_peer\<lparr>m_sslWantsTo := Read\<rparr>))) = Read \<and>
   getPollEvents buffered_output (snd (handleSslState (- 1) (reset_by_peer\<lparr>m_sslWantsTo := Read\<rparr>)))
     = POLLIN \<and>
   getPollEvents buffered_output
     (snd (handleSslState 0 ((accepted [])\<lparr>m_sslWantsTo := Write, last_error := SSL_ERROR_WANT_ACCEPT\<rparr>)))
     = POLLOUT"
  using C10_passthrough_keeps_want_state [of "- 1" "reset_by_peer\<lparr>m_sslWantsTo := Read\<rparr>" buffered_output]
        C10_passthrough_keeps_want_state
          [of 0 "(accepted [])\<lparr>m_sslWantsTo := Write, last_error := SSL_ERROR_WANT_ACCEPT\<rparr>" buffered_output]
  by (simp add: reset_by_peer_def accepted_def SSL_get_error_def)

subsection \<open>Success resets the want-state\<close>

text \<open>
  C8, as the code has it. A positive result given to the classifier resets the
  want-state to Neither and is returned unchanged, so \<^verbatim>\<open>getPollEvents\<close> then gives what
  the base transport computes; this is what happens after every \<^verbatim>\<open>readData\<close> and
  \<^verbatim>\<open>writeData\<close> whose engine call returned a positive count. (A handshake step that
  succeeds is not given to the classifier; see the counterexample below.)
\<close>

theorem C8_positive_result_resets:
  assumes "rc > 0"
  shows "handleSslState rc s = (Inr rc, s\<lparr>m_sslWantsTo := Neither\<rparr>)
     \<and> getPollEvents base (snd (handleSslState rc s)) = base (snd (handleSslState rc s))
     \<and> (\<forall>len s1. engine_call (Call_read len) s = Some (rc, s1) \<longrightarrow>
           readData len s = Some (Inr rc, s1\<lparr>m_sslWantsTo := Neither\<rparr>))
     \<and> (\<forall>len s1. len > 0 \<and> engine_call (Call_write len) s = Some (rc, s1) \<longrightarrow>
           writeData len s = Some (Inr rc, s1\<lparr>m_sslWantsTo := Neither\<rparr>))"
  using assms by (simp add: handleSslState_pos getPollEvents_def readData_def writeData_def)

theorem C8_positive_result_resets_witness:
  "handleSslState 5 ((accepted [succeeded 5])\<lparr>m_sslWantsTo := Write\<rparr>)
     = (Inr 5, accepted [succeeded 5]) \<and>
   map_option (getPollEvents buffered_output)
     (final (readData 16 ((accepted [succeeded 5])\<lparr>m_sslWantsTo := Write\<rparr>))) = Some (POLLIN + POLLOUT) \<and>
   map_option m_sslWantsTo
     (final (writeData 5 ((accepted [succeeded 5])\<lparr>m_sslWantsTo := Read\<rparr>))) = Some Neither"
  using C8_positive_result_resets [of 5 "(accepted [succeeded 5])\<lparr>m_sslWantsTo := Write\<rparr>" buffered_output]
        C8_positive_result_resets [of 5 "(accepted [succeeded 5])\<lparr>m_sslWantsTo := Read\<rparr>" buffered_output]
  by (simp add: accepted_def succeeded_def engine_call_def final_def getPollEvents_def buffered_output_def)

text \<open>
  The claim as stated fails for the handshake: \<^verbatim>\<open>doHandshake\<close> calls the classifier
  only when \<^verbatim>\<open>rc <= 0\<close>. A first step that wants to read records Read; the second step
  succeeds, the handshake is done, and the want-state is still Read, so
  \<^verbatim>\<open>getPollEvents\<close> answers \<^verbatim>\<open>POLLIN\<close> and not what the base transport computes.
\<close>

theorem C8_counterexample:
  "result (then_do (doHandshake stale_session) doHandshake) = Some (Inr 1) \<and>
   map_option m_doHandshake (final (then_do (doHandshake stale_session) doHandshake)) = Some False \<and>
   map_option m_sslWantsTo (final (then_do (doHandshake stale_session) doHandshake)) = Some Read \<and>
   map_option m_sslWantsTo (final (then_do (doHandshake stale_session) doHandshake)) \<noteq> Some Neither \<and>
   map_option (getPollEvents buffered_output) (final (then_do (doHandshake stale_session) doHandshake))
     \<noteq> map_option buffered_output (final (then_do (doHandshake stale_session) doHandshake))"
  by (simp add: then_do_def final_def result_def stale_session_def accepted_def suspended_def
       succeeded_def doHandshake_def SSL_do_handshake_loop_Cons handleSslState_def
       SSL_get_error_def EINTR_def getPollEvents_def buffered_output_def POLLIN_def POLLOUT_def)

subsection \<open>Suspend signals\<close>

text \<open>
  C2, as the code has it. For a non-positive result, a want-read signal sets the
  want-state to Read and a want-write signal sets it to Write, and either way the
  original code is returned unchanged. After the classifier has run on a non-positive
  result, the want-state is Read exactly when the operation signalled want-read, or
  signalled something other than want-write and the want-state already was Read;
  likewise for Write.
\<close>

theorem C2_want_signals:
  assumes "rc \<le> 0"
  shows "(SSL_get_error s rc = SSL_ERROR_WANT_READ \<longrightarrow>
            handleSslState rc s = (Inr rc, s\<lparr>m_sslWantsTo := Read\<rparr>))
     \<and> (SSL_get_error s rc = SSL_ERROR_WANT_WRITE \<longrightarrow>
            handleSslState rc s = (Inr rc, s\<lparr>m_sslWantsTo := Write\<rparr>))
     \<and> (m_sslWantsTo (snd (handleSslState rc s)) = Read \<longleftrightarrow>
            SSL_get_error s rc = SSL_ERROR_WANT_READ
            \<or> (SSL_get_error s rc \<noteq> SSL_ERROR_WANT_WRITE \<and> m_sslWantsTo s = Read))
     \<and> (m_sslWantsTo (snd (handleSslState rc s)) = Write \<longleftrightarrow>
            SSL_get_error s rc = SSL_ERROR_WANT_WRITE
            \<or> (SSL_get_error s rc \<noteq> SSL_ERROR_WANT_READ \<and> m_sslWantsTo s = Write))"
proof -
  have frame: "m_sslWantsTo (snd (handleSslState_default rc s)) = m_sslWantsTo s"
    using handleSslState_default_frame [of rc s] by (cases "handleSslState_default rc s") simp
  show ?thesis
    using assms frame
    by (cases "SSL_get_error s rc") (simp_all add: handleSslState_def)
qed

theorem C2_want_signals_witness:
  "handleSslState (- 1) ((accepted [])\<lparr>last_error := SSL_ERROR_WANT_READ\<rparr>)
     = (Inr (- 1), (accepted [])\<lparr>last_error := SSL_ERROR_WANT_READ, m_sslWantsTo := Read\<rparr>) \<and>
   handleSslState 0 ((accepted [])\<lparr>last_error := SSL_ERROR_WANT_WRITE\<rparr>)
     = (Inr 0, (accepted [])\<lparr>last_error := SSL_ERROR_WANT_WRITE, m_sslWantsTo := Write\<rparr>) \<and>
   m_sslWantsTo (snd (handleSslState (- 1) (reset_by_peer\<lparr>m_sslWantsTo := Read\<rparr>))) = Read"
  using C2_want_signals [of "- 1" "(accepted [])\<lparr>last_error := SSL_ERROR_WANT_READ\<rparr>"]
        C2_want_signals [of 0 "(accepted [])\<lparr>last_error := SSL_ERROR_WANT_WRITE\<rparr>"]
        C2_want_signals [of "- 1" "reset_by_peer\<lparr>m_sslWantsTo := Read\<rparr>"]
  by (simp add: accepted_def reset_by_peer_def SSL_get_error_def)

text \<open>
  The claim as stated ("Read iff the most recent operation signalled need-input") fails:
  a read that wants input records Read, the next read fails with a connection reset,
  which the classifier passes through, and the want-state is still Read.
\<close>

theorem C2_counterexample:
  "result (then_do (readData 16 stale_read) (readData 16)) = Some (Inr (- 1)) \<and>
   map_option last_error (final (then_do (readData 16 stale_read) (readData 16)))
     = Some SSL_ERROR_SYSCALL \<and>
   \<not> (map_option m_sslWantsTo (final (then_do (readData 16 stale_read) (readData 16))) = Some Read
        \<longleftrightarrow> map_option last_error (final (then_do (readData 16 stale_read) (readData 16)))
              = Some SSL_ERROR_WANT_READ)"
  by (simp add: then_do_def final_def result_def stale_read_def accepted_def suspended_def
       connection_reset_def readData_def engine_call_def handleSslState_def SSL_get_error_def)

subsection \<open>The diagnostic queue\<close>

text \<open>
  C5. A non-positive result with \<^verbatim>\<open>errno\<close> 0 whose classification is none of the
  signals the switch names goes to the error queue: with the queue empty, result 0 is
  returned as 0 (orderly close) and result -1 throws "SSL Socket closed unexpectedly.";
  with a diagnostic code queued, the classifier throws with that code's formatted text
  (cut to the buffer of 512) and takes the code off the queue.
\<close>

theorem C5_default_consults_queue:
  assumes "rc \<le> 0" and "errno s = 0"
    and "SSL_get_error s rc \<notin> {SSL_ERROR_ZERO_RETURN, SSL_ERROR_WANT_READ, SSL_ERROR_WANT_WRITE,
           SSL_ERROR_WANT_CONNECT, SSL_ERROR_WANT_ACCEPT, SSL_ERROR_WANT_X509_LOOKUP}"
  shows "(err_queue s = [] \<and> rc = 0 \<longrightarrow> handleSslState rc s = (Inr 0, s))
     \<and> (err_queue s = [] \<and> rc = - 1 \<longrightarrow>
          handleSslState rc s = (Inl (Runtime_error ''SSL Socket closed unexpectedly.''), s))
     \<and> (\<forall>e es. err_queue s = e # es \<and> e \<noteq> 0 \<longrightarrow>
          handleSslState rc s
            = (Inl (Runtime_error (take 511 (ERR_error_string s e))), s\<lparr>err_queue := es\<rparr>))"
proof -
  have "handleSslState rc s = handleSslState_default rc s"
    using assms by (cases "SSL_get_error s rc") (simp_all add: handleSslState_def)
  then show ?thesis
    by (auto simp: handleSslState_default_def ERR_get_error_def)
qed

theorem C5_default_consults_queue_witness:
  "handleSslState 0 no_diagnostic = (Inr 0, no_diagnostic) \<and>
   handleSslState (- 1) no_diagnostic
     = (Inl (Runtime_error ''SSL Socket closed unexpectedly.''), no_diagnostic) \<and>
   handleSslState (- 1) with_diagnostic
     = (Inl (Runtime_error ''error:20''), with_diagnostic\<lparr>err_queue := [7]\<rparr>)"
proof -
  have d: "diagnostic_text 20 = ''error:20''"
    by (simp add: diagnostic_text_def decimal.simps digit_char_def)
  show ?thesis
  using C5_default_consults_queue [of 0 no_diagnostic]
        C5_default_consults_queue [of "- 1" no_diagnostic]
        C5_default_consults_queue [of "- 1" with_diagnostic]
  by (simp add: no_diagnostic_def with_diagnostic_def accepted_def SSL_get_error_def d)
qed

subsection \<open>Shutdown\<close>

text \<open>
  C7. \<^verbatim>\<open>shutdown\<close> calls \<^verbatim>\<open>SSL_shutdown\<close> once; exactly when that returns 0 it
  calls it once more, and then returns whatever the second call gave. Each invocation so
  makes one or two attempts, never a third, and returns as soon as the engine has
  answered; this holds from every state, so also for an invocation that follows another
  one directly.
\<close>

theorem C7_shutdown_two_attempts:
  "(\<forall>r rs. script s = r # rs \<and> ret r \<noteq> 0 \<longrightarrow>
      (\<exists>s'. shutdown s = Some s' \<and> script s' = rs
            \<and> trace s' = trace s @ [(Call_shutdown, ret r)]))
   \<and> (\<forall>r r2 rs. script s = r # r2 # rs \<and> ret r = 0 \<longrightarrow>
      (\<exists>s'. shutdown s = Some s' \<and> script s' = rs
            \<and> trace s' = trace s @ [(Call_shutdown, 0), (Call_shutdown, ret r2)]))
   \<and> (\<forall>s'. shutdown s = Some s' \<longrightarrow>
        (\<exists>rc. rc \<noteq> 0 \<and> trace s' = trace s @ [(Call_shutdown, rc)])
      \<or> (\<exists>rc2. trace s' = trace s @ [(Call_shutdown, 0), (Call_shutdown, rc2)]))
   \<and> (\<forall>s1 s2. shutdown s = Some s1 \<and> shutdown s1 = Some s2 \<longrightarrow>
        length (trace s2) \<le> length (trace s1) + 2
      \<and> length (trace s1) \<le> length (trace s) + 2)"
proof -
  have one: "\<And>t t'. shutdown t = Some t' \<Longrightarrow>
        (\<exists>rc. rc \<noteq> 0 \<and> trace t' = trace t @ [(Call_shutdown, rc)])
      \<or> (\<exists>rc2. trace t' = trace t @ [(Call_shutdown, 0), (Call_shutdown, rc2)])"
    by (auto simp: shutdown_def engine_call_def split: list.splits if_splits)
  have len: "\<And>t t'. shutdown t = Some t' \<Longrightarrow> length (trace t') \<le> length (trace t) + 2"
    using one by fastforce
  have a: "\<forall>r rs. script s = r # rs \<and> ret r \<noteq> 0 \<longrightarrow>
      (\<exists>s'. shutdown s = Some s' \<and> script s' = rs
            \<and> trace s' = trace s @ [(Call_shutdown, ret r)])"
    by (simp add: shutdown_def engine_call_def)
  have b: "\<forall>r r2 rs. script s = r # r2 # rs \<and> ret r = 0 \<longrightarrow>
      (\<exists>s'. shutdown s = Some s' \<and> script s' = rs
            \<and> trace s' = trace s @ [(Call_shutdown, 0), (Call_shutdown, ret r2)])"
    by (simp add: shutdown_def engine_call_def)
  show ?thesis
    using a b one len by blast
qed

theorem C7_shutdown_two_attempts_witness:
  "map_option trace (shutdown unresponsive_peer)
     = Some [(Call_shutdown, 0), (Call_shutdown, 0)] \<and>
   map_option trace (then_shutdown (shutdown unresponsive_peer))
     = Some [(Call_shutdown, 0), (Call_shutdown, 0), (Call_shutdown, 0), (Call_shutdown, 0)] \<and>
   map_option script (then_shutdown (shutdown unresponsive_peer)) = Some [succeeded 0] \<and>
   map_option trace (shutdown (accepted [succeeded 1, succeeded 0])) = Some [(Call_shutdown, 1)] \<and>
   map_option trace (shutdown (accepted [suspended SSL_ERROR_WANT_READ])) = Some [(Call_shutdown, - 1)]"
  using C7_shutdown_two_attempts [of unresponsive_peer]
        C7_shutdown_two_attempts [of "accepted [succeeded 1, succeeded 0]"]
        C7_shutdown_two_attempts [of "accepted [suspended SSL_ERROR_WANT_READ]"]
  by (simp add: unresponsive_peer_def accepted_def succeeded_def suspended_def shutdown_def
        then_shutdown_def engine_call_def)

subsection \<open>Writing nothing\<close>

text \<open>
  C9. \<^verbatim>\<open>writeData\<close> with a length that is not positive fails its assertion at once,
  whatever the handshake flag, and leaves the state untouched; whenever \<^verbatim>\<open>writeData\<close>
  reaches \<^verbatim>\<open>SSL_write\<close>, the length it passes is positive.
\<close>

theorem C9_writeData_rejects_empty:
  "(len \<le> 0 \<longrightarrow> writeData len s = Some (Inl (Assertion_failed ''len > 0''), s))
   \<and> (\<forall>x. writeData len s = Some x \<longrightarrow>
         trace (snd x) = trace s
       \<or> (\<exists>rc. 0 < len \<and> trace (snd x) = trace s @ [(Call_write len, rc)]))"
proof -
  have "\<And>rc s1 x. engine_call (Call_write len) s = Some (rc, s1) \<Longrightarrow>
          trace (snd (handleSslState rc s1)) = trace s @ [(Call_write len, rc)]"
    using handleSslState_frame engine_call_frame by (metis prod.collapse)
  then show ?thesis
    by (auto simp: writeData_def split: option.splits)
qed

theorem C9_writeData_rejects_empty_witness:
  "writeData 0 (accepted [succeeded 1]) = Some (Inl (Assertion_failed ''len > 0''), accepted [succeeded 1]) \<and>
   writeData 0 ((accepted [succeeded 1])\<lparr>m_doHandshake := False\<rparr>)
     = Some (Inl (Assertion_failed ''len > 0''), (accepted [succeeded 1])\<lparr>m_doHandshake := False\<rparr>) \<and>
   map_option trace (final (writeData 3 (accepted [succeeded 3]))) = Some [(Call_write 3, 3)]"
  using C9_writeData_rejects_empty [of 0 "accepted [succeeded 1]"]
        C9_writeData_rejects_empty [of 0 "(accepted [succeeded 1])\<lparr>m_doHandshake := False\<rparr>"]
        C9_writeData_rejects_empty [of 3 "accepted [succeeded 3]"]
  by (simp add: accepted_def succeeded_def writeData_def engine_call_def handleSslState_def final_def)

subsection \<open>The handshake flag\<close>

text \<open>
  C4. The handshake is done when \<^verbatim>\<open>_doHandshake\<close> is false. \<^verbatim>\<open>doHandshake\<close>
  clears the flag only when the last \<^verbatim>\<open>SSL_do_handshake\<close> returned a positive code
  (and then returns 1), and no other operation changes the flag; once the flag is
  cleared, no sequence of operations of the class sets it again, \<^verbatim>\<open>doHandshake\<close>
  returns 1 without calling the engine, and \<^verbatim>\<open>readIncomingData\<close> and
  \<^verbatim>\<open>writeOutgoingData\<close> are the default implementations.
\<close>

theorem C4_handshake_done_monotonic:
  "(\<forall>r s'. doHandshake s = Some (r, s') \<and> m_doHandshake s \<and> \<not> m_doHandshake s' \<longrightarrow>
       r = Inr 1 \<and> (\<exists>rc. 0 < rc \<and> trace s' \<noteq> [] \<and> last (trace s') = (Call_do_handshake, rc)))
   \<and> (\<forall>x s'. x \<noteq> Op_doHandshake \<and> step x s = Some s' \<longrightarrow> m_doHandshake s' = m_doHandshake s)
   \<and> (\<forall>xs s'. \<not> m_doHandshake s \<and> run xs s = Some s' \<longrightarrow> \<not> m_doHandshake s')
   \<and> (\<not> m_doHandshake s \<longrightarrow>
        doHandshake s = Some (Inr 1, s)
      \<and> readIncomingData base_read s = base_read s
      \<and> writeOutgoingData base_write s = base_write s)"
proof -
  have "\<not> m_doHandshake s \<Longrightarrow> readIncomingData base_read s = base_read s"
    by (simp add: readIncomingData_def doHandshake_done)
  moreover have "\<not> m_doHandshake s \<Longrightarrow> writeOutgoingData base_write s = base_write s"
    by (simp add: writeOutgoingData_def doHandshake_done)
  ultimately show ?thesis
    using doHandshake_sets_done run_done doHandshake_done step_frame by blast
qed

theorem C4_handshake_done_monotonic_witness:
  "result (doHandshake (accepted [succeeded 1])) = Some (Inr 1) \<and>
   map_option m_doHandshake (final (doHandshake (accepted [succeeded 1]))) = Some False \<and>
   map_option trace (final (doHandshake (accepted [succeeded 1]))) = Some [(Call_do_handshake, 1)] \<and>
   map_option m_doHandshake (step (Op_readData 16) (accepted [succeeded 1])) = Some True \<and>
   map_option m_doHandshake
     (run [Op_readData 16, Op_writeData 7, Op_doHandshake, Op_readData 16, Op_handleSslState 0,
           Op_shutdown] established) = Some False \<and>
   doHandshake established = Some (Inr 1, established) \<and>
   readIncomingData (StreamSocket_read_once 16) established = StreamSocket_read_once 16 established"
  using C4_handshake_done_monotonic [of "accepted [succeeded 1]"]
        C4_handshake_done_monotonic [of established "StreamSocket_read_once 16"]
  by (simp add: established_def accepted_def succeeded_def suspended_def connection_reset_def
        doHandshake_def SSL_do_handshake_loop_Cons EINTR_def result_def final_def
        readData_def writeData_def shutdown_def engine_call_def handleSslState_def
        SSL_get_error_def)

subsection \<open>Reading while the handshake is suspended\<close>

text \<open>
  C1, evaluated on the code. The socket is fresh and the first handshake step returns
  -1 wanting to read. \<^verbatim>\<open>handleSslState\<close> returns the -1, and \<^verbatim>\<open>doHandshake\<close> then
  returns \<^verbatim>\<open>(rc != 0)\<close>, which is 1, with the flag still set. \<^verbatim>\<open>readIncomingData\<close>
  sees a positive code and goes on to the default implementation, which reads through
  \<^verbatim>\<open>readData\<close>: \<^verbatim>\<open>SSL_read\<close> is called although the handshake is pending.
\<close>

theorem C1_suspended_handshake_reaches_read_path:
  "result (doHandshake handshake_pending) = Some (Inr 1) \<and>
   readIncomingData base handshake_pending
     = base (handshake_pending\<lparr>m_sslWantsTo := Read, script := [suspended SSL_ERROR_WANT_READ],
               trace := [(Call_do_handshake, - 1)], errno := 11,
               last_error := SSL_ERROR_WANT_READ\<rparr>) \<and>
   map_option m_doHandshake (final (doHandshake handshake_pending)) = Some True \<and>
   map_option trace (final (readIncomingData (StreamSocket_read_once 16384) handshake_pending))
     = Some [(Call_do_handshake, - 1), (Call_read 16384, - 1)]"
  by (simp add: handshake_pending_def accepted_def suspended_def readIncomingData_def
        doHandshake_def SSL_do_handshake_loop_Cons EINTR_def result_def final_def
        StreamSocket_read_once_def readData_def engine_call_def handleSslState_def
        SSL_get_error_def)

end
